theory Spec2Isabelle
  imports Complex_Main "HOL-Library.Sublist" "HOL-Library.AList"
begin

section \<open>Python values\<close>

text \<open>
  The integration handles untyped data decoded from JSON. A Python float is either a
  finite value, kept here as the rational number it denotes (the code below only compares
  floats with zero and truncates them, and both are exact), or one of the three special
  values. A dict is an association list in insertion order whose keys are strings, as in
  every dict the sources build or decode; keys are assumed distinct, as in Python.
\<close>

datatype pyfloat = Finite rat | PosInf | NegInf | NaN

datatype pyval =
    PNone
  | PBool bool
  | PInt int
  | PFloat pyfloat
  | PStr string
  | PList "pyval list"
  | PDict "(string \<times> pyval) list"

datatype error =
    AuthenticationError string
  | ApiError string
  | ClientError string
  | KeyError string
  | TypeError string
  | AttributeError string
  | ValueError string
  | OverflowError string
  | StopIteration
  | RuntimeError string
  | OtherException string

subsection \<open>Decimal rendering of integers\<close>

definition digit_char :: "nat \<Rightarrow> char" where
  "digit_char d = ''0123456789'' ! d"

fun str_nat :: "nat \<Rightarrow> string" where
  "str_nat n = (if n < 10 then [digit_char n] else str_nat (n div 10) @ [digit_char (n mod 10)])"

declare str_nat.simps [simp del]

definition str_int :: "int \<Rightarrow> string" where
  "str_int i = (if i < 0 then CHR ''-'' # str_nat (nat (- i)) else str_nat (nat i))"

text \<open>\<open>sep.join(parts)\<close>\<close>

fun join :: "string \<Rightarrow> string list \<Rightarrow> string" where
  "join sep [] = []"
| "join sep [x] = x"
| "join sep (x # y # ys) = x @ sep @ join sep (y # ys)"

subsection \<open>Operations on Python values\<close>

text \<open>Truth value testing, as \<open>not x\<close> and \<open>if x:\<close> use it.\<close>

fun py_truthy :: "pyval \<Rightarrow> bool" where
  "py_truthy PNone = False"
| "py_truthy (PBool b) = b"
| "py_truthy (PInt i) = (i \<noteq> 0)"
| "py_truthy (PFloat (Finite q)) = (q \<noteq> 0)"
| "py_truthy (PFloat _) = True"
| "py_truthy (PStr s) = (s \<noteq> [])"
| "py_truthy (PList xs) = (xs \<noteq> [])"
| "py_truthy (PDict d) = (d \<noteq> [])"

fun type_name :: "pyval \<Rightarrow> string" where
  "type_name PNone = ''NoneType''"
| "type_name (PBool _) = ''bool''"
| "type_name (PInt _) = ''int''"
| "type_name (PFloat _) = ''float''"
| "type_name (PStr _) = ''str''"
| "type_name (PList _) = ''list''"
| "type_name (PDict _) = ''dict''"

text \<open>The number a bool, an int or a float stands for; \<open>==\<close> compares numbers by value
  across the three types, and NaN equals nothing.\<close>

fun num_val :: "pyval \<Rightarrow> pyfloat option" where
  "num_val (PBool b) = Some (Finite (if b then 1 else 0))"
| "num_val (PInt i) = Some (Finite (of_int i))"
| "num_val (PFloat f) = Some f"
| "num_val _ = None"

fun float_eq :: "pyfloat \<Rightarrow> pyfloat \<Rightarrow> bool" where
  "float_eq NaN _ = False"
| "float_eq _ NaN = False"
| "float_eq a b = (a = b)"

text \<open>
  A list or a dict compares its elements by identity first and by \<open>==\<close> second. For
  every value but NaN an object equals itself, so identity decides nothing; the values
  compared here are decoded from JSON, and the decoder delivers one NaN object for every
  \<open>NaN\<close> it reads. Hence inside a container NaN is the same object as NaN, while
  \<open>NaN == NaN\<close> itself is false.
\<close>

fun same_object :: "pyval \<Rightarrow> pyval \<Rightarrow> bool" where
  "same_object (PFloat NaN) (PFloat NaN) = True"
| "same_object _ _ = False"

fun py_eq :: "pyval \<Rightarrow> pyval \<Rightarrow> bool"
  and py_eq_list :: "pyval list \<Rightarrow> pyval list \<Rightarrow> bool"
  and py_eq_items :: "(string \<times> pyval) list \<Rightarrow> (string \<times> pyval) list \<Rightarrow> bool" where
  "py_eq PNone PNone = True"
| "py_eq (PStr a) (PStr b) = (a = b)"
| "py_eq (PList xs) (PList ys) = py_eq_list xs ys"
| "py_eq (PDict a) (PDict b) = (length a = length b \<and> py_eq_items a b)"
| "py_eq x y = (case (num_val x, num_val y) of (Some p, Some q) \<Rightarrow> float_eq p q | _ \<Rightarrow> False)"
| "py_eq_list [] [] = True"
| "py_eq_list (x # xs) (y # ys) = ((same_object x y \<or> py_eq x y) \<and> py_eq_list xs ys)"
| "py_eq_list _ _ = False"
| "py_eq_items [] b = True"
| "py_eq_items ((k, v) # a) b =
     ((case map_of b k of None \<Rightarrow> False | Some w \<Rightarrow> same_object v w \<or> py_eq v w)
      \<and> py_eq_items a b)"

text \<open>\<open>d.get(key, default)\<close>: only a dict has the method. The messages of the built-in
  exceptions are written without their quotation marks.\<close>

definition py_get :: "pyval \<Rightarrow> string \<Rightarrow> pyval \<Rightarrow> error + pyval" where
  "py_get d key dflt =
    (case d of
       PDict items \<Rightarrow> (case map_of items key of None \<Rightarrow> Inr dflt | Some v \<Rightarrow> Inr v)
     | _ \<Rightarrow> Inl (AttributeError (type_name d @ '' object has no attribute get'')))"

text \<open>\<open>d[key]\<close> with a string key.\<close>

definition py_getitem :: "pyval \<Rightarrow> string \<Rightarrow> error + pyval" where
  "py_getitem d key =
    (case d of
       PDict items \<Rightarrow> (case map_of items key of None \<Rightarrow> Inl (KeyError key) | Some v \<Rightarrow> Inr v)
     | PList _ \<Rightarrow> Inl (TypeError ''list indices must be integers or slices, not str'')
     | PStr _ \<Rightarrow> Inl (TypeError ''string indices must be integers, not str'')
     | _ \<Rightarrow> Inl (TypeError (type_name d @ '' object is not subscriptable'')))"

text \<open>\<open>key in d\<close> with a string key: a key of a dict, an element of a list, a substring
  of a string.\<close>

definition py_contains :: "string \<Rightarrow> pyval \<Rightarrow> error + bool" where
  "py_contains key d =
    (case d of
       PDict items \<Rightarrow> Inr (key \<in> set (map fst items))
     | PList xs \<Rightarrow> Inr (list_ex (\<lambda>x. py_eq x (PStr key)) xs)
     | PStr s \<Rightarrow> Inr (sublist key s)
     | _ \<Rightarrow> Inl (TypeError (''argument of type '' @ type_name d @ '' is not iterable'')))"

text \<open>The elements a \<open>for\<close> loop visits: the items of a list, the keys of a dict, the
  characters of a string.\<close>

definition py_iter :: "pyval \<Rightarrow> error + pyval list" where
  "py_iter d =
    (case d of
       PList xs \<Rightarrow> Inr xs
     | PDict items \<Rightarrow> Inr (map (\<lambda>(k, v). PStr k) items)
     | PStr s \<Rightarrow> Inr (map (\<lambda>c. PStr [c]) s)
     | _ \<Rightarrow> Inl (TypeError (type_name d @ '' object is not iterable'')))"

section \<open>The vendor API client\<close>

text \<open>
  The HTTP session is the environment of the client: it answers a request, given the
  requests issued so far (the last one is the current request), with a response or with
  an exception. A response has a status, and its \<open>text()\<close> and \<open>json()\<close> either return
  or raise. \<open>ClientError\<close> stands for \<open>aiohttp.ClientError\<close> and its subclasses.
  The value of the Authorization header, \<open>f"Bearer {token}"\<close>, is kept as the token.
\<close>

datatype header_value = HStr string | HBearer pyval

record request =
  req_method :: string
  req_url :: string
  req_headers :: "(string \<times> header_value) list"
  req_data :: "(string \<times> pyval) list option"
  req_json :: "pyval option"

record response =
  resp_status :: int
  resp_text :: "error + string"
  resp_json :: "error + pyval"

datatype http_outcome = Response response | Raises error

text \<open>A logged message: literal text, formatted values and formatted exceptions.\<close>

datatype part = Lit string | Val pyval | Exc error

text \<open>What the client has done to the outside: the requests issued and the messages
  logged at error level, both oldest first. Debug messages are not recorded.\<close>

record world =
  requests :: "request list"
  logged :: "part list list"

definition log_error :: "part list \<Rightarrow> world \<Rightarrow> world" where
  "log_error msg w = w\<lparr>logged := logged w @ [msg]\<rparr>"

record ActronApi =
  username :: string
  password :: string
  bearer_token :: pyval

text \<open>\<open>ActronApi.__init__\<close>\<close>

definition init_api :: "string \<Rightarrow> string \<Rightarrow> ActronApi" where
  "init_api u p = \<lparr>username = u, password = p, bearer_token = PNone\<rparr>"

text \<open>The two messages of \<open>_make_request\<close>:
  \<open>f"API request failed: {response.status}, {text}"\<close> and
  \<open>f"Network error during API request: {err}"\<close>.\<close>

definition request_failed_message :: "int \<Rightarrow> string \<Rightarrow> string" where
  "request_failed_message status text = ''API request failed: '' @ str_int status @ '', '' @ text"

definition network_error_message :: "string \<Rightarrow> string" where
  "network_error_message err = ''Network error during API request: '' @ err"

text \<open>The handler \<open>except aiohttp.ClientError\<close> around the request: a client error
  becomes an \<open>ApiError\<close>, any other exception passes.\<close>

definition except_client_error :: "error \<Rightarrow> world \<Rightarrow> (error + pyval) \<times> world" where
  "except_client_error e w =
    (case e of
       ClientError m \<Rightarrow>
         (Inl (ApiError (network_error_message m)), log_error [Lit (network_error_message m)] w)
     | _ \<Rightarrow> (Inl e, w))"

text \<open>The request \<open>_make_request\<close> hands to the session.\<close>

definition build_request ::
  "ActronApi \<Rightarrow> string \<Rightarrow> string \<Rightarrow> (string \<times> header_value) list option \<Rightarrow>
   (string \<times> pyval) list option \<Rightarrow> pyval option \<Rightarrow> bool \<Rightarrow> request" where
  "build_request self url method headers data json auth_required =
    (let headers = (case headers of None \<Rightarrow> [] | Some h \<Rightarrow> h);
         headers = (if auth_required
                    then AList.update ''Authorization'' (HBearer (bearer_token self)) headers
                    else headers)
     in \<lparr>req_method = method, req_url = url, req_headers = headers,
         req_data = data, req_json = json\<rparr>)"

definition make_request ::
  "(request list \<Rightarrow> http_outcome) \<Rightarrow> ActronApi \<Rightarrow> string \<Rightarrow> string \<Rightarrow>
   (string \<times> header_value) list option \<Rightarrow> (string \<times> pyval) list option \<Rightarrow> pyval option \<Rightarrow>
   bool \<Rightarrow> world \<Rightarrow> (error + pyval) \<times> world" where
  "make_request session self url method headers data json auth_required w =
    (if auth_required \<and> \<not> py_truthy (bearer_token self)
     then (Inl (AuthenticationError ''Not authenticated''), w)
     else
       let req = build_request self url method headers data json auth_required;
           w = w\<lparr>requests := requests w @ [req]\<rparr>
       in case session (requests w) of
            Raises e \<Rightarrow> except_client_error e w
          | Response r \<Rightarrow>
              if resp_status r = 200
              then (case resp_json r of
                      Inl e \<Rightarrow> except_client_error e w
                    | Inr v \<Rightarrow> (Inr v, w))
              else (case resp_text r of
                      Inl e \<Rightarrow> except_client_error e w
                    | Inr text \<Rightarrow>
                        (Inl (ApiError (request_failed_message (resp_status r) text)),
                         log_error [Lit (request_failed_message (resp_status r) text)] w)))"

text \<open>
  \<open>API_URL\<close> and \<open>CMD_SET_SETTINGS\<close> come from the module \<open>const\<close>, which is not among
  the sources: they are parameters of the functions that use them.
\<close>

definition request_pairing_token ::
  "string \<Rightarrow> (request list \<Rightarrow> http_outcome) \<Rightarrow> ActronApi \<Rightarrow> world \<Rightarrow> (error + pyval) \<times> world" where
  "request_pairing_token API_URL session self w =
    (let url = API_URL @ ''/api/v0/client/user-devices'';
         headers = [(''Content-Type'', HStr ''application/x-www-form-urlencoded'')];
         data = [(''username'', PStr (username self)),
                 (''password'', PStr (password self)),
                 (''client'', PStr ''ios''),
                 (''deviceName'', PStr ''HomeAssistant''),
                 (''deviceUniqueIdentifier'', PStr ''HomeAssistant'')]
     in case make_request session self url ''POST'' (Some headers) (Some data) None False w of
          (Inl e, w') \<Rightarrow> (Inl e, w')
        | (Inr response, w') \<Rightarrow> (py_getitem response ''pairingToken'', w'))"

definition request_bearer_token ::
  "string \<Rightarrow> (request list \<Rightarrow> http_outcome) \<Rightarrow> ActronApi \<Rightarrow> pyval \<Rightarrow> world \<Rightarrow>
   (error + pyval) \<times> world" where
  "request_bearer_token API_URL session self pairing_token w =
    (let url = API_URL @ ''/api/v0/oauth/token'';
         headers = [(''Content-Type'', HStr ''application/x-www-form-urlencoded'')];
         data = [(''grant_type'', PStr ''refresh_token''),
                 (''refresh_token'', pairing_token),
                 (''client_id'', PStr ''app'')]
     in case make_request session self url ''POST'' (Some headers) (Some data) None False w of
          (Inl e, w') \<Rightarrow> (Inl e, w')
        | (Inr response, w') \<Rightarrow> (py_getitem response ''access_token'', w'))"

text \<open>\<open>authenticate\<close> returns the exception it raises, if any, the client and the world.
  The token is assigned only once \<open>_request_bearer_token\<close> has returned.\<close>

definition authenticate ::
  "string \<Rightarrow> (request list \<Rightarrow> http_outcome) \<Rightarrow> ActronApi \<Rightarrow> world \<Rightarrow>
   error option \<times> ActronApi \<times> world" where
  "authenticate API_URL session self w =
    (case request_pairing_token API_URL session self w of
       (Inl e, w1) \<Rightarrow> (Some e, self, log_error [Lit ''Authentication failed: '', Exc e] w1)
     | (Inr pairing_token, w1) \<Rightarrow>
         (case request_bearer_token API_URL session self pairing_token w1 of
            (Inl e, w2) \<Rightarrow> (Some e, self, log_error [Lit ''Authentication failed: '', Exc e] w2)
          | (Inr token, w2) \<Rightarrow> (None, self\<lparr>bearer_token := token\<rparr>, w2)))"

text \<open>The loop of \<open>get_devices\<close> over the listed systems.\<close>

fun collect_devices :: "pyval list \<Rightarrow> error + pyval list" where
  "collect_devices [] = Inr []"
| "collect_devices (system # rest) =
    (case py_get system ''serial'' (PStr ''Unknown'') of
       Inl e \<Rightarrow> Inl e
     | Inr serial \<Rightarrow>
     (case py_get system ''description'' (PStr ''Unknown Device'') of
       Inl e \<Rightarrow> Inl e
     | Inr name \<Rightarrow>
     (case py_get system ''type'' (PStr ''Unknown'') of
       Inl e \<Rightarrow> Inl e
     | Inr type \<Rightarrow>
     (case collect_devices rest of
       Inl e \<Rightarrow> Inl e
     | Inr devices \<Rightarrow>
         Inr (PDict [(''serial'', serial), (''name'', name), (''type'', type)] # devices)))))"

text \<open>What \<open>get_devices\<close> makes of the decoded response.\<close>

definition parse_devices :: "pyval \<Rightarrow> error + pyval list" where
  "parse_devices response =
    (case py_contains ''_embedded'' response of
       Inl e \<Rightarrow> Inl e
     | Inr False \<Rightarrow> Inr []
     | Inr True \<Rightarrow>
     (case py_getitem response ''_embedded'' of
       Inl e \<Rightarrow> Inl e
     | Inr embedded \<Rightarrow>
     (case py_contains ''ac-system'' embedded of
       Inl e \<Rightarrow> Inl e
     | Inr False \<Rightarrow> Inr []
     | Inr True \<Rightarrow>
     (case py_getitem embedded ''ac-system'' of
       Inl e \<Rightarrow> Inl e
     | Inr systems \<Rightarrow>
     (case py_iter systems of
       Inl e \<Rightarrow> Inl e
     | Inr xs \<Rightarrow> collect_devices xs)))))"

definition get_devices ::
  "string \<Rightarrow> (request list \<Rightarrow> http_outcome) \<Rightarrow> ActronApi \<Rightarrow> world \<Rightarrow>
   (error + pyval list) \<times> world" where
  "get_devices API_URL session self w =
    (case make_request session self (API_URL @ ''/api/v0/client/ac-systems?includeNeo=true'')
            ''GET'' None None None True w of
       (Inl e, w') \<Rightarrow> (Inl e, w')
     | (Inr response, w') \<Rightarrow> (parse_devices response, w'))"

text \<open>
  The device descriptor in words, apart from the loop that builds it: \<open>serial\<close> and \<open>type\<close> are
  the vendor record's fields of these names, \<open>name\<close> is its field \<open>description\<close>; a missing
  \<open>serial\<close> or \<open>type\<close> reads \<open>Unknown\<close>, a missing \<open>description\<close> reads \<open>Unknown Device\<close>.
\<close>

definition descriptor :: "(string \<times> pyval) list \<Rightarrow> pyval" where
  "descriptor system =
    PDict [(''serial'', case map_of system ''serial'' of None \<Rightarrow> PStr ''Unknown'' | Some v \<Rightarrow> v),
           (''name'', case map_of system ''description'' of
                        None \<Rightarrow> PStr ''Unknown Device'' | Some v \<Rightarrow> v),
           (''type'', case map_of system ''type'' of None \<Rightarrow> PStr ''Unknown'' | Some v \<Rightarrow> v)]"

definition get_ac_status ::
  "string \<Rightarrow> (request list \<Rightarrow> http_outcome) \<Rightarrow> ActronApi \<Rightarrow> string \<Rightarrow> world \<Rightarrow>
   (error + pyval) \<times> world" where
  "get_ac_status API_URL session self serial w =
    make_request session self
      (API_URL @ ''/api/v0/client/ac-systems/status/latest?serial='' @ serial)
      ''GET'' None None None True w"

text \<open>\<open>{**command, "type": CMD_SET_SETTINGS}\<close>: the given items in their order, the key
  \<open>type\<close> set to the tag (in place when the mapping has the key, at the end otherwise).\<close>

definition command_envelope :: "pyval \<Rightarrow> (string \<times> pyval) list \<Rightarrow> pyval" where
  "command_envelope CMD_SET_SETTINGS command =
    PDict [(''command'', PDict (AList.update ''type'' CMD_SET_SETTINGS command))]"

definition send_command ::
  "string \<Rightarrow> pyval \<Rightarrow> (request list \<Rightarrow> http_outcome) \<Rightarrow> ActronApi \<Rightarrow> string \<Rightarrow>
   (string \<times> pyval) list \<Rightarrow> world \<Rightarrow> (error + pyval) \<times> world" where
  "send_command API_URL CMD_SET_SETTINGS session self serial command w =
    (let url = API_URL @ ''/api/v0/client/ac-systems/cmds/send?serial='' @ serial;
         data = command_envelope CMD_SET_SETTINGS command
     in make_request session self url ''POST'' None None (Some data) True w)"

section \<open>Entity adapters\<close>

text \<open>
  An entity acts on the outside through the API client of its coordinator and through the
  coordinator's refresh request, and it logs. The trace records these actions, oldest
  first. The cloud is the environment: given the trace up to and including the current
  call, it says which exception the call raises, if any.
\<close>

datatype event =
    SendCommand string "(string \<times> pyval) list"
  | RequestRefresh
  | LogError "part list"

definition api_send_command ::
  "(event list \<Rightarrow> error option) \<Rightarrow> string \<Rightarrow> (string \<times> pyval) list \<Rightarrow> event list \<Rightarrow>
   error option \<times> event list" where
  "api_send_command cloud serial command tr =
    (let tr = tr @ [SendCommand serial command] in (cloud tr, tr))"

definition async_request_refresh ::
  "(event list \<Rightarrow> error option) \<Rightarrow> event list \<Rightarrow> error option \<times> event list" where
  "async_request_refresh cloud tr =
    (let tr = tr @ [RequestRefresh] in (cloud tr, tr))"

text \<open>An exception that leaves a coroutine: \<open>StopIteration\<close> reaches the caller as
  \<open>RuntimeError\<close>, every other exception as it is.\<close>

definition leaves_coroutine :: "error \<Rightarrow> error" where
  "leaves_coroutine e =
    (case e of StopIteration \<Rightarrow> RuntimeError ''coroutine raised StopIteration'' | _ \<Rightarrow> e)"

text \<open>The handler of the command methods: \<open>except Exception as err\<close>, log, \<open>raise\<close>.\<close>

definition except_log_raise :: "string \<Rightarrow> error \<Rightarrow> event list \<Rightarrow> error option \<times> event list" where
  "except_log_raise msg err tr = (Some (leaves_coroutine err), tr @ [LogError [Lit msg, Exc err]])"

subsection \<open>The zone climate entity (\<open>actron/climate.py\<close>)\<close>

datatype HVACMode = OFF | HEAT | COOL | HEAT_COOL | AUTO | DRY | FAN_ONLY

definition HVAC_MODES :: "(string \<times> HVACMode) list" where
  "HVAC_MODES =
    [(''OFF'', OFF), (''AUTO'', AUTO), (''COOL'', COOL), (''HEAT'', HEAT), (''FAN'', FAN_ONLY)]"

definition ATTR_TEMPERATURE :: string where
  "ATTR_TEMPERATURE = ''temperature''"

record ActronClimate =
  coordinator_data :: pyval
  device_id :: string
  zone_id :: string

text \<open>\<open>HVAC_MODES.get(key, HVACMode.OFF)\<close>: a list or a dict is not hashable, and only a
  string equals one of the keys.\<close>

definition hvac_modes_get :: "pyval \<Rightarrow> error + HVACMode" where
  "hvac_modes_get key =
    (case key of
       PStr s \<Rightarrow> Inr (case map_of HVAC_MODES s of None \<Rightarrow> OFF | Some m \<Rightarrow> m)
     | PList _ \<Rightarrow> Inl (TypeError ''unhashable type: list'')
     | PDict _ \<Rightarrow> Inl (TypeError ''unhashable type: dict'')
     | _ \<Rightarrow> Inr OFF)"

definition hvac_mode :: "ActronClimate \<Rightarrow> error + HVACMode" where
  "hvac_mode self =
    (case py_getitem (coordinator_data self) ''main'' of
       Inl e \<Rightarrow> Inl e
     | Inr main \<Rightarrow>
     (case py_getitem main ''is_on'' of
       Inl e \<Rightarrow> Inl e
     | Inr is_on \<Rightarrow>
         if \<not> py_truthy is_on then Inr OFF
         else (case py_getitem main ''mode'' of
                 Inl e \<Rightarrow> Inl e
               | Inr mode \<Rightarrow> hvac_modes_get mode)))"

text \<open>The body of \<open>async_set_temperature\<close> up to the refresh request.\<close>

definition send_setpoint ::
  "(event list \<Rightarrow> error option) \<Rightarrow> ActronClimate \<Rightarrow> (string \<times> pyval) list \<Rightarrow> event list \<Rightarrow>
   error option \<times> event list" where
  "send_setpoint cloud self kwargs tr =
    (case map_of kwargs ATTR_TEMPERATURE of
       None \<Rightarrow> (None, tr)
     | Some temp \<Rightarrow>
       (case hvac_mode self of
          Inl e \<Rightarrow> (Some e, tr)
        | Inr mode \<Rightarrow>
            if mode = COOL then
              api_send_command cloud (device_id self)
                [(''RemoteZoneInfo['' @ zone_id self @ ''].TemperatureSetpoint_Cool_oC'', temp)] tr
            else if mode = HEAT then
              api_send_command cloud (device_id self)
                [(''RemoteZoneInfo['' @ zone_id self @ ''].TemperatureSetpoint_Heat_oC'', temp)] tr
            else (None, tr)))"

definition async_set_temperature ::
  "(event list \<Rightarrow> error option) \<Rightarrow> ActronClimate \<Rightarrow> (string \<times> pyval) list \<Rightarrow> event list \<Rightarrow>
   error option \<times> event list" where
  "async_set_temperature cloud self kwargs tr =
    (case send_setpoint cloud self kwargs tr of
       (Some err, tr1) \<Rightarrow> except_log_raise ''Failed to set temperature: '' err tr1
     | (None, tr1) \<Rightarrow>
       (case async_request_refresh cloud tr1 of
          (Some err, tr2) \<Rightarrow> except_log_raise ''Failed to set temperature: '' err tr2
        | (None, tr2) \<Rightarrow> (None, tr2)))"

text \<open>\<open>next(k for k, v in HVAC_MODES.items() if v == hvac_mode)\<close>\<close>

definition mode_key :: "HVACMode \<Rightarrow> error + string" where
  "mode_key m =
    (case find (\<lambda>(k, v). v = m) HVAC_MODES of
       None \<Rightarrow> Inl StopIteration
     | Some (k, v) \<Rightarrow> Inr k)"

definition send_mode ::
  "(event list \<Rightarrow> error option) \<Rightarrow> ActronClimate \<Rightarrow> HVACMode \<Rightarrow> event list \<Rightarrow>
   error option \<times> event list" where
  "send_mode cloud self m tr =
    (if m = OFF then
       api_send_command cloud (device_id self) [(''UserAirconSettings.isOn'', PBool False)] tr
     else
       (case mode_key m of
          Inl e \<Rightarrow> (Some e, tr)
        | Inr k \<Rightarrow>
            api_send_command cloud (device_id self)
              [(''UserAirconSettings.isOn'', PBool True), (''UserAirconSettings.Mode'', PStr k)] tr))"

definition async_set_hvac_mode ::
  "(event list \<Rightarrow> error option) \<Rightarrow> ActronClimate \<Rightarrow> HVACMode \<Rightarrow> event list \<Rightarrow>
   error option \<times> event list" where
  "async_set_hvac_mode cloud self m tr =
    (case send_mode cloud self m tr of
       (Some err, tr1) \<Rightarrow> except_log_raise ''Failed to set HVAC mode: '' err tr1
     | (None, tr1) \<Rightarrow>
       (case async_request_refresh cloud tr1 of
          (Some err, tr2) \<Rightarrow> except_log_raise ''Failed to set HVAC mode: '' err tr2
        | (None, tr2) \<Rightarrow> (None, tr2)))"

definition async_set_fan_mode ::
  "(event list \<Rightarrow> error option) \<Rightarrow> ActronClimate \<Rightarrow> string \<Rightarrow> event list \<Rightarrow>
   error option \<times> event list" where
  "async_set_fan_mode cloud self fan_mode tr =
    (case api_send_command cloud (device_id self)
            [(''UserAirconSettings.FanMode'', PStr fan_mode)] tr of
       (Some err, tr1) \<Rightarrow> except_log_raise ''Failed to set fan mode: '' err tr1
     | (None, tr1) \<Rightarrow>
       (case async_request_refresh cloud tr1 of
          (Some err, tr2) \<Rightarrow> except_log_raise ''Failed to set fan mode: '' err tr2
        | (None, tr2) \<Rightarrow> (None, tr2)))"

text \<open>The three command operations as one type, for the properties they share.\<close>

datatype command_op =
    SetTemperature "(string \<times> pyval) list"
  | SetHvacMode HVACMode
  | SetFanMode string

fun run_op ::
  "(event list \<Rightarrow> error option) \<Rightarrow> ActronClimate \<Rightarrow> command_op \<Rightarrow> event list \<Rightarrow>
   error option \<times> event list" where
  "run_op cloud self (SetTemperature kwargs) tr = async_set_temperature cloud self kwargs tr"
| "run_op cloud self (SetHvacMode m) tr = async_set_hvac_mode cloud self m tr"
| "run_op cloud self (SetFanMode f) tr = async_set_fan_mode cloud self f tr"

text \<open>Trace predicates: the event is a command; no command follows a refresh request;
  the commands of a trace.\<close>

fun is_command :: "event \<Rightarrow> bool" where
  "is_command (SendCommand _ _) = True"
| "is_command _ = False"

fun no_command_after_refresh :: "event list \<Rightarrow> bool" where
  "no_command_after_refresh [] = True"
| "no_command_after_refresh (RequestRefresh # tr) = (\<not> list_ex is_command tr)"
| "no_command_after_refresh (_ # tr) = no_command_after_refresh tr"

definition commands :: "event list \<Rightarrow> event list" where
  "commands tr = filter is_command tr"

text \<open>The calls of a trace, which are what the cloud sees: its events other than log
  records. The message each operation logs when it fails.\<close>

fun is_log :: "event \<Rightarrow> bool" where
  "is_log (LogError _) = True"
| "is_log _ = False"

definition calls :: "event list \<Rightarrow> event list" where
  "calls tr = filter (\<lambda>ev. \<not> is_log ev) tr"

fun failure_message :: "command_op \<Rightarrow> string" where
  "failure_message (SetTemperature _) = ''Failed to set temperature: ''"
| "failure_message (SetHvacMode _) = ''Failed to set HVAC mode: ''"
| "failure_message (SetFanMode _) = ''Failed to set fan mode: ''"

text \<open>
  The command each operation stands for, read off the vendor's vocabulary and not off the
  methods: a fan mode sets \<open>UserAirconSettings.FanMode\<close>; the mode off clears
  \<open>UserAirconSettings.isOn\<close>; the modes auto, cool, heat and fan-only set it and set
  \<open>UserAirconSettings.Mode\<close> to \<open>AUTO\<close>, \<open>COOL\<close>, \<open>HEAT\<close> and \<open>FAN\<close>; a target
  temperature sets the zone's cooling setpoint while cooling and its heating setpoint
  while heating. Any other operation stands for no command.
\<close>

fun command_to_send :: "ActronClimate \<Rightarrow> command_op \<Rightarrow> event option" where
  "command_to_send self (SetFanMode f) =
     Some (SendCommand (device_id self) [(''UserAirconSettings.FanMode'', PStr f)])"
| "command_to_send self (SetHvacMode m) =
     (case m of
        OFF \<Rightarrow> Some (SendCommand (device_id self) [(''UserAirconSettings.isOn'', PBool False)])
      | AUTO \<Rightarrow> Some (SendCommand (device_id self)
          [(''UserAirconSettings.isOn'', PBool True), (''UserAirconSettings.Mode'', PStr ''AUTO'')])
      | COOL \<Rightarrow> Some (SendCommand (device_id self)
          [(''UserAirconSettings.isOn'', PBool True), (''UserAirconSettings.Mode'', PStr ''COOL'')])
      | HEAT \<Rightarrow> Some (SendCommand (device_id self)
          [(''UserAirconSettings.isOn'', PBool True), (''UserAirconSettings.Mode'', PStr ''HEAT'')])
      | FAN_ONLY \<Rightarrow> Some (SendCommand (device_id self)
          [(''UserAirconSettings.isOn'', PBool True), (''UserAirconSettings.Mode'', PStr ''FAN'')])
      | _ \<Rightarrow> None)"
| "command_to_send self (SetTemperature kwargs) =
     (case map_of kwargs ATTR_TEMPERATURE of
        None \<Rightarrow> None
      | Some temp \<Rightarrow>
          (case hvac_mode self of
             Inr COOL \<Rightarrow> Some (SendCommand (device_id self)
               [(''RemoteZoneInfo['' @ zone_id self @ ''].TemperatureSetpoint_Cool_oC'', temp)])
           | Inr HEAT \<Rightarrow> Some (SendCommand (device_id self)
               [(''RemoteZoneInfo['' @ zone_id self @ ''].TemperatureSetpoint_Heat_oC'', temp)])
           | _ \<Rightarrow> None))"

text \<open>
  \<open>async_set_preset_mode\<close> hands the change to the coordinator's \<open>set_away_mode\<close>, a
  parameter here, with \<open>True\<close> for the preset away and \<open>False\<close> for any other.
\<close>

definition PRESET_AWAY :: string where
  "PRESET_AWAY = ''away''"

definition async_set_preset_mode ::
  "(bool \<Rightarrow> event list \<Rightarrow> error option \<times> event list) \<Rightarrow> string \<Rightarrow> event list \<Rightarrow>
   error option \<times> event list" where
  "async_set_preset_mode set_away_mode preset_mode tr =
    (case (if preset_mode = PRESET_AWAY then set_away_mode True tr else set_away_mode False tr) of
       (Some err, tr1) \<Rightarrow> except_log_raise ''Failed to set preset mode: '' err tr1
     | (None, tr1) \<Rightarrow> (None, tr1))"

subsection \<open>The system climate entity (\<open>actron_air_neo/climate.py\<close>)\<close>




subsection \<open>The zone sensors (\<open>actron/sensor.py\<close>)\<close>

text \<open>
  The three sensor classes share their code up to the field they read and the word in
  their log message. \<open>except Exception\<close> catches every exception of the type \<open>error\<close>.
\<close>

record zone_sensor =
  sensor_zone_id :: pyval
  sensor_state :: pyval

text \<open>The loop over the zones: the state is assigned at the first zone with the
  sensor's id, and the loop ends there.\<close>

fun update_loop :: "string \<Rightarrow> zone_sensor \<Rightarrow> pyval list \<Rightarrow> error option \<times> zone_sensor" where
  "update_loop field self [] = (None, self)"
| "update_loop field self (zone # zones) =
    (case py_get zone ''zoneId'' PNone of
       Inl e \<Rightarrow> (Some e, self)
     | Inr zid \<Rightarrow>
         if py_eq zid (sensor_zone_id self)
         then (case py_get zone field PNone of
                 Inl e \<Rightarrow> (Some e, self)
               | Inr v \<Rightarrow> (None, self\<lparr>sensor_state := v\<rparr>))
         else update_loop field self zones)"

text \<open>The \<open>try\<close> block: the exception it ends with, if any, and the sensor as it is then.\<close>

definition try_update :: "string \<Rightarrow> error + pyval \<Rightarrow> zone_sensor \<Rightarrow> error option \<times> zone_sensor" where
  "try_update field get_status self =
    (case get_status of
       Inl e \<Rightarrow> (Some e, self)
     | Inr status \<Rightarrow>
         if py_truthy status
         then (case py_get status ''zones'' (PList []) of
                 Inl e \<Rightarrow> (Some e, self)
               | Inr zs \<Rightarrow>
                 (case py_iter zs of
                    Inl e \<Rightarrow> (Some e, self)
                  | Inr zones \<Rightarrow> update_loop field self zones))
         else (None, self))"

text \<open>\<open>async_update\<close>: the exception it raises, if any, the sensor and what it logs.\<close>

definition sensor_async_update ::
  "string \<Rightarrow> string \<Rightarrow> error + pyval \<Rightarrow> zone_sensor \<Rightarrow> error option \<times> zone_sensor \<times> event list" where
  "sensor_async_update field word get_status self =
    (case try_update field get_status self of
       (Some e, self') \<Rightarrow>
         (None, self',
          [LogError [Lit (''Failed to update '' @ word @ '' sensor for zone ''),
                     Val (sensor_zone_id self'), Lit '': '', Exc e]])
     | (None, self') \<Rightarrow> (None, self', []))"

definition temperature_async_update ::
  "error + pyval \<Rightarrow> zone_sensor \<Rightarrow> error option \<times> zone_sensor \<times> event list" where
  "temperature_async_update = sensor_async_update ''current_temperature'' ''temperature''"

definition humidity_async_update ::
  "error + pyval \<Rightarrow> zone_sensor \<Rightarrow> error option \<times> zone_sensor \<times> event list" where
  "humidity_async_update = sensor_async_update ''humidity'' ''humidity''"

definition battery_async_update ::
  "error + pyval \<Rightarrow> zone_sensor \<Rightarrow> error option \<times> zone_sensor \<times> event list" where
  "battery_async_update = sensor_async_update ''battery_level'' ''battery''"

section \<open>The uptime formatter of the system status sensor\<close>

definition UNKNOWN_VALUE :: string where
  "UNKNOWN_VALUE = ''Unknown''"

text \<open>\<open>isinstance(seconds, (int, float))\<close>: \<open>bool\<close> is a subclass of \<open>int\<close>.\<close>

fun isinstance_int_float :: "pyval \<Rightarrow> bool" where
  "isinstance_int_float (PBool _) = True"
| "isinstance_int_float (PInt _) = True"
| "isinstance_int_float (PFloat _) = True"
| "isinstance_int_float _ = False"

text \<open>\<open>seconds < 0\<close> for an int, a bool or a float; every comparison with NaN is false.\<close>

fun lt_zero :: "pyval \<Rightarrow> bool" where
  "lt_zero (PInt i) = (i < 0)"
| "lt_zero (PFloat (Finite q)) = (q < 0)"
| "lt_zero (PFloat NegInf) = True"
| "lt_zero _ = False"

text \<open>\<open>int(seconds)\<close> for an int, a bool or a float: floats are truncated towards zero,
  and the special values raise.\<close>

fun py_int :: "pyval \<Rightarrow> error + int" where
  "py_int (PBool b) = Inr (if b then 1 else 0)"
| "py_int (PInt i) = Inr i"
| "py_int (PFloat (Finite q)) = Inr (if 0 \<le> q then \<lfloor>q\<rfloor> else \<lceil>q\<rceil>)"
| "py_int (PFloat NaN) = Inl (ValueError ''cannot convert float NaN to integer'')"
| "py_int (PFloat _) = Inl (OverflowError ''cannot convert float infinity to integer'')"
| "py_int _ = Inl (TypeError ''int() argument must be a string, a bytes-like object or a real number'')"

definition format_parts :: "int \<Rightarrow> string list" where
  "format_parts n =
    (let days = n div 86400; remainder = n mod 86400;
         hours = remainder div 3600; remainder = remainder mod 3600;
         minutes = remainder div 60; seconds = remainder mod 60;
         parts = [];
         parts = (if days > 0 then parts @ [str_int days @ ''d''] else parts);
         parts = (if hours > 0 then parts @ [str_int hours @ ''h''] else parts);
         parts = (if minutes > 0 then parts @ [str_int minutes @ ''m''] else parts);
         parts = (if seconds > 0 \<or> parts = [] then parts @ [str_int seconds @ ''s''] else parts)
     in parts)"

definition format_uptime :: "pyval \<Rightarrow> error + string" where
  "format_uptime seconds =
    (if \<not> isinstance_int_float seconds \<or> lt_zero seconds then Inr UNKNOWN_VALUE
     else case py_int seconds of
            Inl e \<Rightarrow> Inl e
          | Inr n \<Rightarrow> Inr (join '' '' (format_parts n)))"

text \<open>
  The decomposition as the specification words it: the components days, hours, minutes
  and seconds, each followed by its unit letter, the zero-valued ones omitted, and
  \<open>0s\<close> when all four are zero.
\<close>

definition uptime_text :: "int \<Rightarrow> int \<Rightarrow> int \<Rightarrow> int \<Rightarrow> string" where
  "uptime_text d h m s =
    (if d = 0 \<and> h = 0 \<and> m = 0 \<and> s = 0 then ''0s''
     else join '' '' (map (\<lambda>(v, u). str_int v @ u)
            (filter (\<lambda>(v, u). v \<noteq> 0) [(d, ''d''), (h, ''h''), (m, ''m''), (s, ''s'')])))"

text \<open>The number an int, bool or finite float stands for, truncated to an integer.\<close>

fun whole_seconds :: "pyval \<Rightarrow> int option" where
  "whole_seconds (PBool b) = Some (if b then 1 else 0)"
| "whole_seconds (PInt i) = Some i"
| "whole_seconds (PFloat (Finite q)) = Some (if 0 \<le> q then \<lfloor>q\<rfloor> else \<lceil>q\<rceil>)"
| "whole_seconds _ = None"

section \<open>Properties of the API client\<close>

lemma make_request_unauth:
  assumes "bearer_token self = PNone"
  shows "make_request session self url method headers data json True w =
         (Inl (AuthenticationError ''Not authenticated''), w)"
  using assms by (simp add: make_request_def)

text \<open>
  Claim C1. While the client holds no bearer token (\<open>bearer_token\<close> is \<open>None\<close>), every call
  of \<open>_make_request\<close> that requires authentication, and so every call of \<open>get_devices\<close>,
  \<open>get_ac_status\<close> and \<open>send_command\<close>, raises \<open>AuthenticationError\<close> and leaves the world
  as it was: no request is issued.
\<close>

theorem unauthenticated_calls_fail_fast:
  assumes "bearer_token self = PNone"
  shows "make_request session self url method headers data json True w =
           (Inl (AuthenticationError ''Not authenticated''), w)
       \<and> get_devices API_URL session self w = (Inl (AuthenticationError ''Not authenticated''), w)
       \<and> get_ac_status API_URL session self serial w =
           (Inl (AuthenticationError ''Not authenticated''), w)
       \<and> send_command API_URL CMD_SET_SETTINGS session self serial command w =
           (Inl (AuthenticationError ''Not authenticated''), w)"
  using assms
  by (simp add: make_request_unauth get_devices_def get_ac_status_def send_command_def Let_def)

theorem unauthenticated_calls_fail_fast_witness:
  "bearer_token (init_api ''user'' ''secret'') = PNone
   \<and> get_devices ''https://cloud'' (\<lambda>reqs. Raises (ClientError ''unreachable''))
        (init_api ''user'' ''secret'') \<lparr>requests = [], logged = []\<rparr>
      = (Inl (AuthenticationError ''Not authenticated''), \<lparr>requests = [], logged = []\<rparr>)"
proof -
  have h: "bearer_token (init_api ''user'' ''secret'') = PNone" by (simp add: init_api_def)
  from unauthenticated_calls_fail_fast [OF h] h show ?thesis by blast
qed

lemma message_has_status: "sublist (str_int status) (request_failed_message status text)"
  unfolding request_failed_message_def by (rule sublist_appendI)

lemma message_has_text: "sublist text (request_failed_message status text)"
proof -
  have "request_failed_message status text = (''API request failed: '' @ str_int status @ '', '') @ text"
    by (simp add: request_failed_message_def)
  then show ?thesis by (metis sublist_append_leftI)
qed

lemma except_client_error_translates:
  "fst (except_client_error (ClientError m) w) = Inl (ApiError (network_error_message m))"
  by (simp add: except_client_error_def)

text \<open>
  Claim C2. Once the request is issued, a response whose status is not 200 makes
  \<open>_make_request\<close> raise \<open>ApiError\<close> with a message that contains the decimal status code
  and the body text; and a client exception (\<open>aiohttp.ClientError\<close>) raised by the request,
  or by reading the body of the response, is turned into an \<open>ApiError\<close>.
\<close>

theorem failed_requests_raise_api_error:
  assumes "auth_required \<longrightarrow> py_truthy (bearer_token self)"
    and "outcome = session (requests w @ [build_request self url method headers data json auth_required])"
    and "result = fst (make_request session self url method headers data json auth_required w)"
  shows "(\<forall>r text. outcome = Response r \<and> resp_status r \<noteq> 200 \<and> resp_text r = Inr text \<longrightarrow>
           (\<exists>msg. result = Inl (ApiError msg) \<and> sublist (str_int (resp_status r)) msg \<and> sublist text msg))
       \<and> (\<forall>m. outcome = Raises (ClientError m) \<longrightarrow> (\<exists>msg. result = Inl (ApiError msg)))
       \<and> (\<forall>r m. outcome = Response r \<and> resp_status r \<noteq> 200 \<and> resp_text r = Inl (ClientError m) \<longrightarrow>
           (\<exists>msg. result = Inl (ApiError msg)))
       \<and> (\<forall>r m. outcome = Response r \<and> resp_status r = 200 \<and> resp_json r = Inl (ClientError m) \<longrightarrow>
           (\<exists>msg. result = Inl (ApiError msg)))"
  using assms(1) unfolding assms(2,3)
  by (auto simp: make_request_def Let_def except_client_error_translates
                 message_has_status message_has_text)

theorem failed_requests_raise_api_error_witness:
  "py_truthy (PStr ''token'')
   \<and> sublist ''404'' ''API request failed: 404, Not Found''
   \<and> sublist ''Not Found'' ''API request failed: 404, Not Found''
   \<and> fst (make_request
            (\<lambda>reqs. Response \<lparr>resp_status = 404, resp_text = Inr ''Not Found'',
                               resp_json = Inl (ClientError ''no JSON'')\<rparr>)
            \<lparr>username = ''user'', password = ''secret'', bearer_token = PStr ''token''\<rparr>
            ''https://cloud/x'' ''GET'' None None None True \<lparr>requests = [], logged = []\<rparr>)
       = Inl (ApiError ''API request failed: 404, Not Found'')"
proof -
  let ?session = "\<lambda>reqs :: request list.
      Response \<lparr>resp_status = 404, resp_text = Inr ''Not Found'',
                resp_json = Inl (ClientError ''no JSON'')\<rparr>"
  let ?self = "\<lparr>username = ''user'', password = ''secret'', bearer_token = PStr ''token''\<rparr>"
  let ?w = "\<lparr>requests = [], logged = []\<rparr>"
  let ?res = "fst (make_request ?session ?self ''https://cloud/x'' ''GET'' None None None True ?w)"
  have val: "?res = Inl (ApiError ''API request failed: 404, Not Found'')"
    by (simp add: make_request_def Let_def request_failed_message_def str_int_def
                  str_nat.simps digit_char_def)
  have auth: "True \<longrightarrow> py_truthy (bearer_token ?self)" by simp
  have "\<exists>msg. ?res = Inl (ApiError msg) \<and> sublist (str_int 404) msg \<and> sublist ''Not Found'' msg"
    using failed_requests_raise_api_error [OF auth refl refl, of ?session ?w
        "''https://cloud/x''" "''GET''" None None None]
    by simp
  then show ?thesis using val by (simp add: str_int_def str_nat.simps digit_char_def)
qed

text \<open>
  Claim C4. \<open>authenticate\<close> lets the exception of the failing step pass as it is. When the
  cloud rejects the credentials with status 401, the pairing-token request raises
  \<open>ApiError\<close>, and that is what \<open>authenticate\<close> raises, not \<open>AuthenticationError\<close>; one
  request has been issued, so the step was not tried again.
\<close>

theorem authenticate_rejected_raises_api_error:
  "fst (authenticate ''https://cloud''
         (\<lambda>reqs. Response \<lparr>resp_status = 401, resp_text = Inr ''Unauthorized'',
                            resp_json = Inr PNone\<rparr>)
         (init_api ''user'' ''wrong'') \<lparr>requests = [], logged = []\<rparr>)
     = Some (ApiError ''API request failed: 401, Unauthorized'')
   \<and> length (requests (snd (snd (authenticate ''https://cloud''
         (\<lambda>reqs. Response \<lparr>resp_status = 401, resp_text = Inr ''Unauthorized'',
                            resp_json = Inr PNone\<rparr>)
         (init_api ''user'' ''wrong'') \<lparr>requests = [], logged = []\<rparr>)))) = 1"
  by (simp add: authenticate_def request_pairing_token_def make_request_def build_request_def
        Let_def init_api_def request_failed_message_def str_int_def str_nat.simps digit_char_def
        log_error_def)

text \<open>
  Claim C9. When \<open>authenticate\<close> raises, in either step, the client's bearer token is the
  one it held before the call.
\<close>

theorem failed_authenticate_keeps_token:
  assumes "fst (authenticate API_URL session self w) = Some e"
  shows "bearer_token (fst (snd (authenticate API_URL session self w))) = bearer_token self"
  using assms
  by (auto simp: authenticate_def split: prod.splits sum.splits)

theorem failed_authenticate_keeps_token_witness:
  "fst (authenticate ''https://cloud''
         (\<lambda>reqs. if length reqs = 1
                  then Response \<lparr>resp_status = 200, resp_text = Inr ''{}'',
                                  resp_json = Inr (PDict [(''pairingToken'', PStr ''pair'')])\<rparr>
                  else Response \<lparr>resp_status = 500, resp_text = Inr ''oops'', resp_json = Inr PNone\<rparr>)
         \<lparr>username = ''user'', password = ''secret'', bearer_token = PStr ''old''\<rparr>
         \<lparr>requests = [], logged = []\<rparr>)
     = Some (ApiError ''API request failed: 500, oops'')
   \<and> bearer_token (fst (snd (authenticate ''https://cloud''
         (\<lambda>reqs. if length reqs = 1
                  then Response \<lparr>resp_status = 200, resp_text = Inr ''{}'',
                                  resp_json = Inr (PDict [(''pairingToken'', PStr ''pair'')])\<rparr>
                  else Response \<lparr>resp_status = 500, resp_text = Inr ''oops'', resp_json = Inr PNone\<rparr>)
         \<lparr>username = ''user'', password = ''secret'', bearer_token = PStr ''old''\<rparr>
         \<lparr>requests = [], logged = []\<rparr>))) = PStr ''old''"
proof -
  let ?session = "\<lambda>reqs :: request list. if length reqs = 1
                  then Response \<lparr>resp_status = 200, resp_text = Inr ''{}'',
                                  resp_json = Inr (PDict [(''pairingToken'', PStr ''pair'')])\<rparr>
                  else Response \<lparr>resp_status = 500, resp_text = Inr ''oops'', resp_json = Inr PNone\<rparr>"
  let ?self = "\<lparr>username = ''user'', password = ''secret'', bearer_token = PStr ''old''\<rparr>"
  let ?w = "\<lparr>requests = [], logged = []\<rparr>"
  have raised: "fst (authenticate ''https://cloud'' ?session ?self ?w)
                = Some (ApiError ''API request failed: 500, oops'')"
    by (simp add: authenticate_def request_pairing_token_def request_bearer_token_def
          make_request_def build_request_def py_getitem_def
          Let_def request_failed_message_def str_int_def str_nat.simps digit_char_def log_error_def)
  from failed_authenticate_keeps_token [OF raised] raised show ?thesis by simp
qed

lemma except_client_error_requests:
  "requests (snd (except_client_error e w)) = requests w"
  by (cases e) (simp_all add: except_client_error_def log_error_def)

lemma make_request_requests:
  assumes "auth_required \<longrightarrow> py_truthy (bearer_token self)"
  shows "requests (snd (make_request session self url method headers data json auth_required w)) =
         requests w @ [build_request self url method headers data json auth_required]"
  using assms
  by (auto simp: make_request_def Let_def except_client_error_requests log_error_def
           split: http_outcome.splits sum.splits)

text \<open>
  Claim C5. For every field mapping, an authenticated \<open>send_command\<close> issues one POST
  whose JSON body is \<open>{"command": inner}\<close>, where \<open>inner\<close> is the given mapping with the key
  \<open>type\<close> set to the fixed tag; when the mapping has no key \<open>type\<close>, \<open>inner\<close> is the given
  items followed by the tag.
\<close>

theorem send_command_posts_envelope:
  assumes "py_truthy (bearer_token self)"
  shows "\<exists>inner. requests (snd (send_command API_URL CMD_SET_SETTINGS session self serial command w))
           = requests w @
             [\<lparr>req_method = ''POST'',
               req_url = API_URL @ ''/api/v0/client/ac-systems/cmds/send?serial='' @ serial,
               req_headers = [(''Authorization'', HBearer (bearer_token self))],
               req_data = None,
               req_json = Some (PDict [(''command'', PDict inner)])\<rparr>]
         \<and> map_of inner = (map_of command)(''type'' \<mapsto> CMD_SET_SETTINGS)
         \<and> (''type'' \<notin> fst ` set command \<longrightarrow> inner = command @ [(''type'', CMD_SET_SETTINGS)])"
proof -
  have auth: "True \<longrightarrow> py_truthy (bearer_token self)" using assms by simp
  have fresh: "''type'' \<notin> fst ` set command \<Longrightarrow>
        AList.update ''type'' CMD_SET_SETTINGS command = command @ [(''type'', CMD_SET_SETTINGS)]"
    by (induction command) auto
  show ?thesis
    unfolding send_command_def Let_def make_request_requests [OF auth]
    by (rule exI [of _ "AList.update ''type'' CMD_SET_SETTINGS command"])
       (simp add: build_request_def command_envelope_def update_conv' fresh)
qed

theorem send_command_posts_envelope_witness:
  "py_truthy (PStr ''token'')
   \<and> map req_json (requests (snd (send_command ''https://cloud'' (PStr ''set-settings'')
        (\<lambda>reqs. Response \<lparr>resp_status = 200, resp_text = Inr ''{}'', resp_json = Inr (PDict [])\<rparr>)
        \<lparr>username = ''user'', password = ''secret'', bearer_token = PStr ''token''\<rparr>
        ''SERIAL1'' [(''UserAirconSettings.isOn'', PBool True)] \<lparr>requests = [], logged = []\<rparr>)))
     = [Some (PDict [(''command'',
          PDict [(''UserAirconSettings.isOn'', PBool True), (''type'', PStr ''set-settings'')])])]"
proof -
  let ?self = "\<lparr>username = ''user'', password = ''secret'', bearer_token = PStr ''token''\<rparr>"
  have h: "py_truthy (bearer_token ?self)" by simp
  from send_command_posts_envelope [OF h, of "''https://cloud''" "PStr ''set-settings''" _
      "''SERIAL1''" "[(''UserAirconSettings.isOn'', PBool True)]" "\<lparr>requests = [], logged = []\<rparr>"]
  show ?thesis by auto
qed

lemma collect_devices_dicts: "collect_devices (map PDict systems) = Inr (map descriptor systems)"
  by (induction systems) (auto simp: py_get_def descriptor_def split: option.splits)

lemma py_contains_dict: "py_contains k (PDict items) = Inr (map_of items k \<noteq> None)"
  by (simp add: py_contains_def map_of_eq_None_iff)

lemma py_getitem_dict: "map_of items k = Some v \<Longrightarrow> py_getitem (PDict items) k = Inr v"
  by (simp add: py_getitem_def)

text \<open>
  Claim C6, as stated, fails: for a listed system without any field the descriptor's
  \<open>name\<close> is \<open>Unknown Device\<close>, not \<open>Unknown\<close>.
\<close>

theorem parse_devices_counterexample:
  "parse_devices (PDict [(''_embedded'', PDict [(''ac-system'', PList [PDict []])])])
   = Inr [PDict [(''serial'', PStr ''Unknown''), (''name'', PStr ''Unknown Device''),
                 (''type'', PStr ''Unknown'')]]"
  by (simp add: parse_devices_def py_contains_def py_getitem_def py_iter_def py_get_def)

text \<open>
  Claim C6, amended. On a 200 response that decodes to an object, \<open>get_devices\<close> returns the
  empty sequence when the key \<open>_embedded\<close> is absent, when the embedded object has no key
  \<open>ac-system\<close>, and when the list of systems is empty; and for a list of vendor records it
  returns one descriptor for each record, in order, where a missing \<open>serial\<close> or \<open>type\<close>
  defaults to \<open>Unknown\<close> and \<open>name\<close>, read from the field \<open>description\<close>, defaults to
  \<open>Unknown Device\<close>.
\<close>

theorem get_devices_defaults:
  assumes "py_truthy (bearer_token self)"
    and "session (requests w @ [build_request self (API_URL @ ''/api/v0/client/ac-systems?includeNeo=true'')
                                  ''GET'' None None None True]) = Response r"
    and "resp_status r = 200"
    and "resp_json r = Inr (PDict response)"
    and "devices = fst (get_devices API_URL session self w)"
  shows "(map_of response ''_embedded'' = None \<longrightarrow> devices = Inr [])
       \<and> (\<forall>embedded. map_of response ''_embedded'' = Some (PDict embedded)
             \<and> map_of embedded ''ac-system'' = None \<longrightarrow> devices = Inr [])
       \<and> (\<forall>embedded. map_of response ''_embedded'' = Some (PDict embedded)
             \<and> map_of embedded ''ac-system'' = Some (PList []) \<longrightarrow> devices = Inr [])
       \<and> (\<forall>embedded systems. map_of response ''_embedded'' = Some (PDict embedded)
             \<and> map_of embedded ''ac-system'' = Some (PList (map PDict systems))
             \<longrightarrow> devices = Inr (map descriptor systems))"
proof -
  have got: "fst (make_request session self (API_URL @ ''/api/v0/client/ac-systems?includeNeo=true'')
                    ''GET'' None None None True w) = Inr (PDict response)"
    using assms(1-4) by (simp add: make_request_def Let_def)
  have devices: "devices = parse_devices (PDict response)"
    unfolding assms(5) get_devices_def using got by (auto split: prod.splits sum.splits)
  show ?thesis
    unfolding devices
    by (auto simp: parse_devices_def py_contains_dict py_getitem_dict py_iter_def
          collect_devices_dicts)
qed

theorem get_devices_defaults_witness:
  "py_truthy (PStr ''token'')
   \<and> fst (get_devices ''https://cloud''
       (\<lambda>reqs. Response \<lparr>resp_status = 200, resp_text = Inr [],
          resp_json = Inr (PDict [(''_embedded'',
            PDict [(''ac-system'', PList [PDict [(''serial'', PStr ''A1'')]])])])\<rparr>)
       \<lparr>username = ''user'', password = ''secret'', bearer_token = PStr ''token''\<rparr>
       \<lparr>requests = [], logged = []\<rparr>)
     = Inr [PDict [(''serial'', PStr ''A1''), (''name'', PStr ''Unknown Device''),
                   (''type'', PStr ''Unknown'')]]"
proof -
  let ?r = "\<lparr>resp_status = 200, resp_text = Inr [],
          resp_json = Inr (PDict [(''_embedded'',
            PDict [(''ac-system'', PList [PDict [(''serial'', PStr ''A1'')]])])])\<rparr>"
  let ?session = "\<lambda>reqs :: request list. Response ?r"
  let ?self = "\<lparr>username = ''user'', password = ''secret'', bearer_token = PStr ''token''\<rparr>"
  let ?w = "\<lparr>requests = [], logged = []\<rparr>"
  let ?response = "[(''_embedded'', PDict [(''ac-system'', PList [PDict [(''serial'', PStr ''A1'')]])])]"
  have h1: "py_truthy (bearer_token ?self)" by simp
  have h2: "?session (requests ?w @ [build_request ?self (''https://cloud'' @ ''/api/v0/client/ac-systems?includeNeo=true'')
                                  ''GET'' None None None True]) = Response ?r" by simp
  have h3: "resp_status ?r = 200" by simp
  have h4: "resp_json ?r = Inr (PDict ?response)" by simp
  have all: "\<forall>embedded systems. map_of ?response ''_embedded'' = Some (PDict embedded)
             \<and> map_of embedded ''ac-system'' = Some (PList (map PDict systems))
             \<longrightarrow> fst (get_devices ''https://cloud'' ?session ?self ?w) = Inr (map descriptor systems)"
    using get_devices_defaults [OF h1 h2 h3 h4 refl] by blast
  have "fst (get_devices ''https://cloud'' ?session ?self ?w)
        = Inr (map descriptor [[(''serial'', PStr ''A1'')]])"
    by (rule all [rule_format, of "[(''ac-system'', PList [PDict [(''serial'', PStr ''A1'')]])]"]) simp
  then show ?thesis by (simp add: descriptor_def)
qed

section \<open>Properties of the uptime formatter\<close>

lemma decomp_days:
  fixes d r :: int
  assumes "0 \<le> r" "r < 86400"
  shows "(d * 86400 + r) div 86400 = d" and "(d * 86400 + r) mod 86400 = r"
  using assms by (simp_all add: div_pos_pos_trivial)

lemma decomp_hours:
  fixes h r :: int
  assumes "0 \<le> r" "r < 3600"
  shows "(h * 3600 + r) div 3600 = h" and "(h * 3600 + r) mod 3600 = r"
  using assms by (simp_all add: div_pos_pos_trivial)

lemma decomp_minutes:
  fixes m r :: int
  assumes "0 \<le> r" "r < 60"
  shows "(m * 60 + r) div 60 = m" and "(m * 60 + r) mod 60 = r"
  using assms by (simp_all add: div_pos_pos_trivial)

lemma str_int_zero: "str_int 0 = ''0''"
  by (simp add: str_int_def str_nat.simps digit_char_def)

lemma format_parts_decomp:
  fixes d h m s :: int
  assumes "0 \<le> d" "0 \<le> h" "h < 24" "0 \<le> m" "m < 60" "0 \<le> s" "s < 60"
  shows "join '' '' (format_parts (d * 86400 + h * 3600 + m * 60 + s)) = uptime_text d h m s"
proof -
  have ms: "0 \<le> m * 60 + s" "m * 60 + s < 3600" using assms by auto
  have hms: "0 \<le> h * 3600 + (m * 60 + s)" "h * 3600 + (m * 60 + s) < 86400" using assms by auto
  have n: "d * 86400 + h * 3600 + m * 60 + s = d * 86400 + (h * 3600 + (m * 60 + s))" by simp
  have days: "(d * 86400 + h * 3600 + m * 60 + s) div 86400 = d"
    unfolding n by (rule decomp_days(1)[OF hms])
  have rem1: "(d * 86400 + h * 3600 + m * 60 + s) mod 86400 = h * 3600 + (m * 60 + s)"
    unfolding n by (rule decomp_days(2)[OF hms])
  have hours: "(h * 3600 + (m * 60 + s)) div 3600 = h" by (rule decomp_hours(1)[OF ms])
  have rem2: "(h * 3600 + (m * 60 + s)) mod 3600 = m * 60 + s" by (rule decomp_hours(2)[OF ms])
  have minutes: "(m * 60 + s) div 60 = m" by (rule decomp_minutes(1)[OF assms(6,7)])
  have seconds: "(m * 60 + s) mod 60 = s" by (rule decomp_minutes(2)[OF assms(6,7)])
  have hours': "(d * 86400 + h * 3600 + m * 60 + s) mod 86400 div 3600 = h"
    by (simp only: rem1 hours)
  have minutes': "(d * 86400 + h * 3600 + m * 60 + s) mod 86400 mod 3600 div 60 = m"
    by (simp only: rem1 rem2 minutes)
  have seconds': "(d * 86400 + h * 3600 + m * 60 + s) mod 86400 mod 3600 mod 60 = s"
    by (simp only: rem1 rem2 seconds)
  have parts: "format_parts (d * 86400 + h * 3600 + m * 60 + s) =
     (if d > 0 then [str_int d @ ''d''] else []) @ (if h > 0 then [str_int h @ ''h''] else []) @
     (if m > 0 then [str_int m @ ''m''] else []) @
     (if s > 0 \<or> (d = 0 \<and> h = 0 \<and> m = 0) then [str_int s @ ''s''] else [])"
    unfolding format_parts_def Let_def days hours' minutes' seconds'
    using assms(1,2,4) by auto
  show ?thesis
    unfolding parts uptime_text_def using assms
    by (auto simp: str_int_zero)
qed

lemma whole_seconds_py_int:
  assumes "whole_seconds x = Some n"
  shows "isinstance_int_float x" and "py_int x = Inr n"
  using assms by (induction x rule: whole_seconds.induct) auto

lemma whole_seconds_nonneg:
  assumes "whole_seconds x = Some n" and "\<not> lt_zero x"
  shows "0 \<le> n"
  using assms by (induction x rule: whole_seconds.induct) (auto split: if_splits)

lemma decomposition_exists:
  fixes n :: int
  assumes "0 \<le> n"
  shows "\<exists>d h m s. 0 \<le> d \<and> 0 \<le> h \<and> h < 24 \<and> 0 \<le> m \<and> m < 60 \<and> 0 \<le> s \<and> s < 60
           \<and> n = d * 86400 + h * 3600 + m * 60 + s"
proof -
  let ?r = "n mod 86400"
  let ?q = "?r mod 3600"
  have "0 \<le> n div 86400" using assms by (simp add: pos_imp_zdiv_nonneg_iff)
  moreover have "0 \<le> ?r div 3600" by (simp add: pos_imp_zdiv_nonneg_iff)
  moreover have "?r div 3600 < 24"
  proof -
    have "?r < 24 * 3600" by simp
    then show ?thesis by (simp add: div_less_iff_less_mult)
  qed
  moreover have "0 \<le> ?q div 60" by (simp add: pos_imp_zdiv_nonneg_iff)
  moreover have "?q div 60 < 60"
  proof -
    have "?q < 60 * 60" by simp
    then show ?thesis by (simp add: div_less_iff_less_mult)
  qed
  moreover have "0 \<le> ?q mod 60" "?q mod 60 < 60" by simp_all
  moreover have "n = (n div 86400) * 86400 + (?r div 3600) * 3600 + (?q div 60) * 60 + ?q mod 60"
    by (simp add: algebra_simps)
  ultimately show ?thesis by blast
qed

text \<open>
  Claim C10, as stated, fails: \<open>_format_uptime\<close> is not total. A float infinity passes
  both tests of the guard, and \<open>int(seconds)\<close> raises \<open>OverflowError\<close>.
\<close>

theorem format_uptime_counterexample:
  "format_uptime (PFloat PosInf) = Inl (OverflowError ''cannot convert float infinity to integer'')"
  by (simp add: format_uptime_def)

text \<open>
  Claim C10, amended. For every input that is not an int, a bool or a float, and for
  every negative number, \<open>_format_uptime\<close> returns \<open>Unknown\<close>. For every finite
  non-negative number, whose integer part is \<open>n\<close>, it returns the decomposition of \<open>n\<close>
  into days, hours, minutes and seconds (bases 86400, 3600, 60): whenever
  \<open>n = d * 86400 + h * 3600 + m * 60 + s\<close> with \<open>h < 24\<close>, \<open>m < 60\<close>, \<open>s < 60\<close>, the result
  lists the four components with their unit letters, the zero-valued ones omitted, and is
  \<open>0s\<close> when all are zero; and such a decomposition exists, so the function returns a
  string on all these inputs.
\<close>

theorem format_uptime_decomposition:
  "(\<not> isinstance_int_float x \<or> lt_zero x \<longrightarrow> format_uptime x = Inr ''Unknown'')
   \<and> (\<forall>n d h m s. whole_seconds x = Some n \<and> \<not> lt_zero x
         \<and> 0 \<le> d \<and> 0 \<le> h \<and> h < 24 \<and> 0 \<le> m \<and> m < 60 \<and> 0 \<le> s \<and> s < 60
         \<and> n = d * 86400 + h * 3600 + m * 60 + s
         \<longrightarrow> format_uptime x = Inr (uptime_text d h m s))
   \<and> (\<forall>n. whole_seconds x = Some n \<and> \<not> lt_zero x
         \<longrightarrow> (\<exists>d h m s. 0 \<le> d \<and> 0 \<le> h \<and> h < 24 \<and> 0 \<le> m \<and> m < 60 \<and> 0 \<le> s \<and> s < 60
                \<and> n = d * 86400 + h * 3600 + m * 60 + s
                \<and> format_uptime x = Inr (uptime_text d h m s)))"
proof -
  have unknown: "\<not> isinstance_int_float x \<or> lt_zero x \<longrightarrow> format_uptime x = Inr ''Unknown''"
    by (auto simp: format_uptime_def UNKNOWN_VALUE_def)
  have exact: "format_uptime x = Inr (uptime_text d h m s)"
    if "whole_seconds x = Some n" "\<not> lt_zero x" "0 \<le> d" "0 \<le> h" "h < 24" "0 \<le> m" "m < 60"
       "0 \<le> s" "s < 60" "n = d * 86400 + h * 3600 + m * 60 + s" for n d h m s
  proof -
    have "format_uptime x = Inr (join '' '' (format_parts n))"
      using whole_seconds_py_int [OF that(1)] that(2) by (simp add: format_uptime_def)
    then show ?thesis
      unfolding that(10) using format_parts_decomp [OF that(3-9)] by simp
  qed
  have total: "\<exists>d h m s. 0 \<le> d \<and> 0 \<le> h \<and> h < 24 \<and> 0 \<le> m \<and> m < 60 \<and> 0 \<le> s \<and> s < 60
                \<and> n = d * 86400 + h * 3600 + m * 60 + s
                \<and> format_uptime x = Inr (uptime_text d h m s)"
    if ws: "whole_seconds x = Some n" and nn: "\<not> lt_zero x" for n
  proof -
    have "0 \<le> n" by (rule whole_seconds_nonneg [OF ws nn])
    then obtain d h m s where dec: "0 \<le> d" "0 \<le> h" "h < 24" "0 \<le> m" "m < 60" "0 \<le> s" "s < 60"
        "n = d * 86400 + h * 3600 + m * 60 + s"
      using decomposition_exists by blast
    from exact [OF ws nn dec] dec show ?thesis by blast
  qed
  from unknown exact total show ?thesis by blast
qed

theorem format_uptime_decomposition_witness:
  "format_uptime (PInt 90061) = Inr ''1d 1h 1m 1s''
   \<and> format_uptime (PFloat (Finite (181 / 2))) = Inr ''1m 30s''
   \<and> format_uptime (PInt 0) = Inr ''0s''
   \<and> format_uptime (PStr ''90'') = Inr ''Unknown''
   \<and> format_uptime (PInt (- 5)) = Inr ''Unknown''"
proof -
  have one: "str_int 1 = ''1''" and thirty: "str_int 30 = ''30''"
    by (simp_all add: str_int_def str_nat.simps digit_char_def)
  have fl: "\<lfloor>181 / 2 :: rat\<rfloor> = 90" by (rule floor_unique) simp_all
  have a: "format_uptime (PInt 90061) = Inr (uptime_text 1 1 1 1)"
    using format_uptime_decomposition [of "PInt 90061", THEN conjunct2, THEN conjunct1,
        rule_format, of 90061 1 1 1 1] by simp
  have b: "format_uptime (PFloat (Finite (181 / 2))) = Inr (uptime_text 0 0 1 30)"
    using format_uptime_decomposition [of "PFloat (Finite (181 / 2))", THEN conjunct2,
        THEN conjunct1, rule_format, of 90 0 0 1 30] by (simp add: fl)
  have c: "format_uptime (PInt 0) = Inr (uptime_text 0 0 0 0)"
    using format_uptime_decomposition [of "PInt 0", THEN conjunct2, THEN conjunct1,
        rule_format, of 0 0 0 0 0] by simp
  have d: "format_uptime (PStr ''90'') = Inr ''Unknown''"
    using format_uptime_decomposition [of "PStr ''90''", THEN conjunct1] by simp
  have e: "format_uptime (PInt (- 5)) = Inr ''Unknown''"
    using format_uptime_decomposition [of "PInt (- 5)", THEN conjunct1] by simp
  show ?thesis
    unfolding a b c d e by (simp add: uptime_text_def one thirty)
qed

section \<open>Properties of the entity adapters\<close>

text \<open>The shape of every trace of a command method: at most one command, then either the
  log record of its failure, or the refresh request and, when that fails, a log record.\<close>

lemma send_setpoint_shape:
  "send_setpoint cloud self kwargs [] = (x, tr1) \<Longrightarrow>
     tr1 = [] \<or> (\<exists>c. tr1 = [SendCommand (device_id self) c] \<and> x = cloud tr1)"
  by (auto simp: send_setpoint_def api_send_command_def Let_def
           split: option.splits sum.splits if_splits)

lemma send_mode_shape:
  "send_mode cloud self m [] = (x, tr1) \<Longrightarrow>
     tr1 = [] \<or> (\<exists>c. tr1 = [SendCommand (device_id self) c] \<and> x = cloud tr1)"
  by (auto simp: send_mode_def api_send_command_def Let_def
           split: option.splits sum.splits if_splits)

lemma run_op_shape:
  assumes "run_op cloud self op [] = (r, tr)"
  shows "\<exists>x tr1. (tr1 = [] \<or> (\<exists>c. tr1 = [SendCommand (device_id self) c] \<and> x = cloud tr1))
     \<and> (r, tr) = (case x of
          Some err \<Rightarrow> (Some (leaves_coroutine err), tr1 @ [LogError [Lit (failure_message op), Exc err]])
        | None \<Rightarrow> (case cloud (tr1 @ [RequestRefresh]) of
              Some err \<Rightarrow> (Some (leaves_coroutine err),
                           tr1 @ [RequestRefresh, LogError [Lit (failure_message op), Exc err]])
            | None \<Rightarrow> (None, tr1 @ [RequestRefresh])))"
proof (cases op)
  case (SetTemperature kwargs)
  obtain x tr1 where b: "send_setpoint cloud self kwargs [] = (x, tr1)" by force
  from send_setpoint_shape [OF b] assms b SetTemperature show ?thesis
    by (intro exI [of _ x] exI [of _ tr1])
       (auto simp: async_set_temperature_def except_log_raise_def async_request_refresh_def Let_def
             split: option.splits)
next
  case (SetHvacMode m)
  obtain x tr1 where b: "send_mode cloud self m [] = (x, tr1)" by force
  from send_mode_shape [OF b] assms b SetHvacMode show ?thesis
    by (intro exI [of _ x] exI [of _ tr1])
       (auto simp: async_set_hvac_mode_def except_log_raise_def async_request_refresh_def Let_def
             split: option.splits)
next
  case (SetFanMode f)
  with assms show ?thesis
    by (intro exI [of _ "cloud [SendCommand (device_id self) [(''UserAirconSettings.FanMode'', PStr f)]]"]
              exI [of _ "[SendCommand (device_id self) [(''UserAirconSettings.FanMode'', PStr f)]]"])
       (auto simp: async_set_fan_mode_def api_send_command_def except_log_raise_def
                   async_request_refresh_def Let_def split: option.splits)
qed

lemma send_setpoint_sends:
  "command_to_send self (SetTemperature kwargs) = Some cmd \<Longrightarrow>
     send_setpoint cloud self kwargs [] = (cloud [cmd], [cmd])"
  by (auto simp: send_setpoint_def api_send_command_def Let_def
           split: option.splits sum.splits HVACMode.splits)

lemma send_setpoint_silent:
  "command_to_send self (SetTemperature kwargs) = None \<Longrightarrow>
     snd (send_setpoint cloud self kwargs []) = []"
  by (auto simp: send_setpoint_def api_send_command_def Let_def
           split: option.splits sum.splits HVACMode.splits)

lemma send_mode_sends:
  "command_to_send self (SetHvacMode m) = Some cmd \<Longrightarrow>
     send_mode cloud self m [] = (cloud [cmd], [cmd])"
  by (cases m)
     (auto simp: send_mode_def mode_key_def HVAC_MODES_def api_send_command_def Let_def)

lemma send_mode_silent:
  "command_to_send self (SetHvacMode m) = None \<Longrightarrow> snd (send_mode cloud self m []) = []"
  by (cases m)
     (auto simp: send_mode_def mode_key_def HVAC_MODES_def api_send_command_def Let_def)

text \<open>The run of an operation that stands for a command: the command is sent first; the
  refresh is requested when, and only when, the command succeeded.\<close>

lemma run_op_sends:
  assumes "command_to_send self op = Some cmd"
  shows "run_op cloud self op [] =
    (case cloud [cmd] of
       Some e \<Rightarrow> (Some (leaves_coroutine e), [cmd, LogError [Lit (failure_message op), Exc e]])
     | None \<Rightarrow>
        (case cloud [cmd, RequestRefresh] of
           Some e \<Rightarrow> (Some (leaves_coroutine e),
                       [cmd, RequestRefresh, LogError [Lit (failure_message op), Exc e]])
         | None \<Rightarrow> (None, [cmd, RequestRefresh])))"
proof (cases op)
  case (SetTemperature kwargs)
  with assms show ?thesis
    by (simp add: async_set_temperature_def send_setpoint_sends except_log_raise_def
          async_request_refresh_def Let_def split: option.splits)
next
  case (SetHvacMode m)
  with assms show ?thesis
    by (simp add: async_set_hvac_mode_def send_mode_sends except_log_raise_def
          async_request_refresh_def Let_def split: option.splits)
next
  case (SetFanMode f)
  with assms show ?thesis
    by (auto simp: async_set_fan_mode_def api_send_command_def except_log_raise_def
          async_request_refresh_def Let_def split: option.splits)
qed

lemma run_op_silent:
  assumes "command_to_send self op = None"
  shows "commands (snd (run_op cloud self op [])) = []"
proof (cases op)
  case (SetTemperature kwargs)
  obtain x tr1 where b: "send_setpoint cloud self kwargs [] = (x, tr1)" by force
  with send_setpoint_silent [of self kwargs cloud] assms SetTemperature have "tr1 = []" by simp
  with b SetTemperature show ?thesis
    by (auto simp: async_set_temperature_def except_log_raise_def async_request_refresh_def
          commands_def Let_def split: option.splits)
next
  case (SetHvacMode m)
  obtain x tr1 where b: "send_mode cloud self m [] = (x, tr1)" by force
  with send_mode_silent [of self m cloud] assms SetHvacMode have "tr1 = []" by simp
  with b SetHvacMode show ?thesis
    by (auto simp: async_set_hvac_mode_def except_log_raise_def async_request_refresh_def
          commands_def Let_def split: option.splits)
next
  case (SetFanMode f)
  with assms show ?thesis by simp
qed

text \<open>
  Claim C7. Every command operation of the climate entity (set temperature, set HVAC mode,
  set fan mode) that stands for a command sends that command first. When the command
  fails, no refresh is requested and the failure is raised. When it succeeds, the refresh
  is requested next; when the refresh succeeds too the trace is the command and the
  refresh request, and when the refresh fails the trace is the command, the refresh
  request and the log record of the failure, which is raised to the caller: no further
  command undoes the first one. In every run at most one command is sent and no command
  follows the refresh request; an operation that stands for no command sends none.
\<close>

theorem command_precedes_refresh:
  assumes "run_op cloud self op [] = (r, tr)"
  shows "no_command_after_refresh tr
     \<and> length (commands tr) \<le> 1
     \<and> (\<forall>d c. SendCommand d c \<in> set tr \<and> cloud [SendCommand d c] = None
           \<longrightarrow> RequestRefresh \<in> set tr)
     \<and> (\<forall>d c e. SendCommand d c \<in> set tr \<and> cloud [SendCommand d c] = None
           \<and> cloud [SendCommand d c, RequestRefresh] = Some e
           \<longrightarrow> tr = [SendCommand d c, RequestRefresh, LogError [Lit (failure_message op), Exc e]]
               \<and> r = Some (leaves_coroutine e))
     \<and> (\<forall>cmd. command_to_send self op = Some cmd \<longrightarrow>
           (\<forall>e. cloud [cmd] = Some e \<longrightarrow>
                r = Some (leaves_coroutine e)
                \<and> tr = [cmd, LogError [Lit (failure_message op), Exc e]])
         \<and> (cloud [cmd] = None \<longrightarrow>
               (\<forall>e. cloud [cmd, RequestRefresh] = Some e \<longrightarrow>
                    r = Some (leaves_coroutine e)
                    \<and> tr = [cmd, RequestRefresh, LogError [Lit (failure_message op), Exc e]])
             \<and> (cloud [cmd, RequestRefresh] = None \<longrightarrow> r = None \<and> tr = [cmd, RequestRefresh])))
     \<and> (command_to_send self op = None \<longrightarrow> commands tr = [])"
proof -
  have order: "no_command_after_refresh tr
     \<and> length (commands tr) \<le> 1
     \<and> (\<forall>d c. SendCommand d c \<in> set tr \<and> cloud [SendCommand d c] = None
           \<longrightarrow> RequestRefresh \<in> set tr)
     \<and> (\<forall>d c e. SendCommand d c \<in> set tr \<and> cloud [SendCommand d c] = None
           \<and> cloud [SendCommand d c, RequestRefresh] = Some e
           \<longrightarrow> tr = [SendCommand d c, RequestRefresh, LogError [Lit (failure_message op), Exc e]]
               \<and> r = Some (leaves_coroutine e))"
    using run_op_shape [OF assms]
    by (auto simp: commands_def split: option.splits)
  have sent: "(\<forall>e. cloud [cmd] = Some e \<longrightarrow>
                r = Some (leaves_coroutine e)
                \<and> tr = [cmd, LogError [Lit (failure_message op), Exc e]])
         \<and> (cloud [cmd] = None \<longrightarrow>
               (\<forall>e. cloud [cmd, RequestRefresh] = Some e \<longrightarrow>
                    r = Some (leaves_coroutine e)
                    \<and> tr = [cmd, RequestRefresh, LogError [Lit (failure_message op), Exc e]])
             \<and> (cloud [cmd, RequestRefresh] = None \<longrightarrow> r = None \<and> tr = [cmd, RequestRefresh]))"
    if "command_to_send self op = Some cmd" for cmd
    using run_op_sends [OF that, of cloud] assms by (auto split: option.splits)
  have silent: "command_to_send self op = None \<longrightarrow> commands tr = []"
    using run_op_silent [of self op cloud] assms by simp
  from order sent silent show ?thesis by blast
qed

theorem command_precedes_refresh_witness:
  "command_to_send \<lparr>coordinator_data = PDict [], device_id = ''D1'', zone_id = ''1''\<rparr>
      (SetHvacMode COOL)
    = Some (SendCommand ''D1'' [(''UserAirconSettings.isOn'', PBool True),
                               (''UserAirconSettings.Mode'', PStr ''COOL'')])
   \<and> run_op (\<lambda>tr. if length tr = 2 then Some (ApiError ''refresh failed'') else None)
      \<lparr>coordinator_data = PDict [], device_id = ''D1'', zone_id = ''1''\<rparr> (SetHvacMode COOL) []
    = (Some (ApiError ''refresh failed''),
       [SendCommand ''D1'' [(''UserAirconSettings.isOn'', PBool True),
                           (''UserAirconSettings.Mode'', PStr ''COOL'')],
        RequestRefresh,
        LogError [Lit ''Failed to set HVAC mode: '', Exc (ApiError ''refresh failed'')]])
   \<and> no_command_after_refresh
       [SendCommand ''D1'' [(''UserAirconSettings.isOn'', PBool True),
                           (''UserAirconSettings.Mode'', PStr ''COOL'')],
        RequestRefresh,
        LogError [Lit ''Failed to set HVAC mode: '', Exc (ApiError ''refresh failed'')]]"
proof -
  let ?cloud = "\<lambda>tr :: event list. if length tr = 2 then Some (ApiError ''refresh failed'') else None"
  let ?self = "\<lparr>coordinator_data = PDict [], device_id = ''D1'', zone_id = ''1''\<rparr>"
  let ?cmd = "SendCommand ''D1'' [(''UserAirconSettings.isOn'', PBool True),
                           (''UserAirconSettings.Mode'', PStr ''COOL'')]"
  obtain r tr where run: "run_op ?cloud ?self (SetHvacMode COOL) [] = (r, tr)" by force
  have cmd: "command_to_send ?self (SetHvacMode COOL) = Some ?cmd" by simp
  have ok: "?cloud [?cmd] = None" by simp
  have bad: "?cloud [?cmd, RequestRefresh] = Some (ApiError ''refresh failed'')" by simp
  from command_precedes_refresh [OF run] cmd ok bad
  have "r = Some (leaves_coroutine (ApiError ''refresh failed''))
        \<and> tr = [?cmd, RequestRefresh,
                 LogError [Lit (failure_message (SetHvacMode COOL)), Exc (ApiError ''refresh failed'')]]"
    by blast
  moreover have "no_command_after_refresh tr" using command_precedes_refresh [OF run] by blast
  ultimately show ?thesis using run cmd by (simp add: leaves_coroutine_def)
qed

lemma update_loop_keeps_state:
  "fst (update_loop field self zones) = Some e \<Longrightarrow> snd (update_loop field self zones) = self"
  by (induction zones) (auto split: sum.splits if_splits)

lemma try_update_keeps_state:
  "fst (try_update field get_status self) = Some e \<Longrightarrow> snd (try_update field get_status self) = self"
  by (auto simp: try_update_def update_loop_keeps_state split: sum.splits if_splits)

lemma sensor_async_update_never_raises: "fst (sensor_async_update field word get_status self) = None"
  by (simp add: sensor_async_update_def split: prod.splits option.splits)

lemma sensor_async_update_on_exception:
  assumes "fst (try_update field get_status self) = Some e"
  shows "sensor_async_update field word get_status self =
         (None, self, [LogError [Lit (''Failed to update '' @ word @ '' sensor for zone ''),
                                 Val (sensor_zone_id self), Lit '': '', Exc e]])"
proof -
  obtain x s where t: "try_update field get_status self = (x, s)" by force
  with assms try_update_keeps_state [OF assms] have "x = Some e" "s = self" by simp_all
  with t show ?thesis by (simp add: sensor_async_update_def)
qed

text \<open>
  Claim C8. The \<open>async_update\<close> of each zone sensor (temperature, humidity, battery)
  never raises; when its \<open>try\<close> block ends with an exception, the sensor is as it was
  before, its state included, and the exception is logged. Each command method of the
  climate entity, when the call it made last (the command or the refresh request) raises,
  logs the exception and raises it to the caller; and whenever the method raises, the last
  record of its trace is the log of the exception it raises. \<open>async_set_preset_mode\<close>
  does the same with an exception of the coordinator's \<open>set_away_mode\<close>. An exception
  reaches the caller of a coroutine as it is, except \<open>StopIteration\<close>.
\<close>

theorem sensors_swallow_climate_reraises:
  "(\<forall>(upd, field, word) \<in> set [(temperature_async_update, ''current_temperature'', ''temperature''),
                              (humidity_async_update, ''humidity'', ''humidity''),
                              (battery_async_update, ''battery_level'', ''battery'')].
      fst (upd get_status self) = None
      \<and> (\<forall>e. fst (try_update field get_status self) = Some e \<longrightarrow>
            upd get_status self =
              (None, self, [LogError [Lit (''Failed to update '' @ word @ '' sensor for zone ''),
                                      Val (sensor_zone_id self), Lit '': '', Exc e]])))
   \<and> (\<forall>op r tr. run_op cloud entity op [] = (r, tr) \<longrightarrow>
        (\<forall>e. calls tr \<noteq> [] \<and> cloud (calls tr) = Some e \<longrightarrow>
              r = Some (leaves_coroutine e) \<and> last tr = LogError [Lit (failure_message op), Exc e])
        \<and> (r \<noteq> None \<longrightarrow> (\<exists>e. r = Some (leaves_coroutine e)
              \<and> last tr = LogError [Lit (failure_message op), Exc e])))
   \<and> (\<forall>preset e tr0 tr1. set_away_mode (preset = PRESET_AWAY) tr0 = (Some e, tr1) \<longrightarrow>
        async_set_preset_mode set_away_mode preset tr0 =
          (Some (leaves_coroutine e), tr1 @ [LogError [Lit ''Failed to set preset mode: '', Exc e]]))"
proof -
  have preset: "async_set_preset_mode set_away_mode preset tr0 =
          (Some (leaves_coroutine e), tr1 @ [LogError [Lit ''Failed to set preset mode: '', Exc e]])"
    if "set_away_mode (preset = PRESET_AWAY) tr0 = (Some e, tr1)" for preset e tr0 tr1
    using that by (cases "preset = PRESET_AWAY") (simp_all add: async_set_preset_mode_def except_log_raise_def)
  have sensors: "fst (sensor_async_update field word get_status self) = None
      \<and> (\<forall>e. fst (try_update field get_status self) = Some e \<longrightarrow>
            sensor_async_update field word get_status self =
              (None, self, [LogError [Lit (''Failed to update '' @ word @ '' sensor for zone ''),
                                      Val (sensor_zone_id self), Lit '': '', Exc e]]))" for field word
    using sensor_async_update_never_raises sensor_async_update_on_exception by blast
  have climate: "(\<forall>e. calls tr \<noteq> [] \<and> cloud (calls tr) = Some e \<longrightarrow>
              r = Some (leaves_coroutine e) \<and> last tr = LogError [Lit (failure_message op), Exc e])
        \<and> (r \<noteq> None \<longrightarrow> (\<exists>e. r = Some (leaves_coroutine e)
              \<and> last tr = LogError [Lit (failure_message op), Exc e]))"
    if "run_op cloud entity op [] = (r, tr)" for op r tr
    using run_op_shape [OF that]
    by (auto simp: calls_def split: option.splits)
  show ?thesis
    using sensors climate preset
    by (simp add: temperature_async_update_def humidity_async_update_def battery_async_update_def)
qed


theorem sensors_swallow_climate_reraises_witness:
  "temperature_async_update (Inl (ApiError ''cloud down''))
      \<lparr>sensor_zone_id = PInt 1, sensor_state = PFloat (Finite 21)\<rparr>
    = (None, \<lparr>sensor_zone_id = PInt 1, sensor_state = PFloat (Finite 21)\<rparr>,
       [LogError [Lit ''Failed to update temperature sensor for zone '', Val (PInt 1), Lit '': '',
                  Exc (ApiError ''cloud down'')]])
   \<and> run_op (\<lambda>tr. Some (ApiError ''cloud down''))
        \<lparr>coordinator_data = PDict [], device_id = ''D1'', zone_id = ''1''\<rparr> (SetFanMode ''LOW'') []
    = (Some (ApiError ''cloud down''),
       [SendCommand ''D1'' [(''UserAirconSettings.FanMode'', PStr ''LOW'')],
        LogError [Lit ''Failed to set fan mode: '', Exc (ApiError ''cloud down'')]])
   \<and> async_set_preset_mode (\<lambda>away tr. (Some (ApiError ''cloud down''), tr)) ''away'' []
    = (Some (ApiError ''cloud down''),
       [LogError [Lit ''Failed to set preset mode: '', Exc (ApiError ''cloud down'')]])"
proof -
  let ?away = "\<lambda>(away :: bool) (tr :: event list). (Some (ApiError ''cloud down''), tr)"
  have away: "?away (''away'' = PRESET_AWAY) [] = (Some (ApiError ''cloud down''), [])" by simp
  let ?gs = "Inl (ApiError ''cloud down'') :: error + pyval"
  let ?sensor = "\<lparr>sensor_zone_id = PInt 1, sensor_state = PFloat (Finite 21)\<rparr>"
  let ?cloud = "\<lambda>tr :: event list. Some (ApiError ''cloud down'')"
  let ?entity = "\<lparr>coordinator_data = PDict [], device_id = ''D1'', zone_id = ''1''\<rparr>"
  let ?tr = "[SendCommand ''D1'' [(''UserAirconSettings.FanMode'', PStr ''LOW'')],
        LogError [Lit ''Failed to set fan mode: '', Exc (ApiError ''cloud down'')]]"
  have failing: "fst (try_update ''current_temperature'' ?gs ?sensor) = Some (ApiError ''cloud down'')"
    by (simp add: try_update_def)
  have run: "run_op ?cloud ?entity (SetFanMode ''LOW'') [] = (Some (ApiError ''cloud down''), ?tr)"
    by (simp add: async_set_fan_mode_def api_send_command_def except_log_raise_def
          leaves_coroutine_def Let_def)
  from sensors_swallow_climate_reraises [of ?gs ?sensor ?cloud ?entity ?away] failing run away
  show ?thesis by (simp add: leaves_coroutine_def)
qed



end
